theory Spec2Isabelle
  imports Main
begin

section \<open>Data model\<close>

text \<open>
  The module \<open>gdpc/geometry.py\<close> is a layer of wrappers: every function turns its
  arguments into one or more calls of the editor (\<open>placeBlock\<close>, \<open>placeBlockGlobal\<close>),
  using the vector, box and point-generator collaborators of \<open>vector_tools\<close>, the
  \<open>Block\<close> type and the editor's transform. The embedding keeps each wrapper as it is
  written and makes its effect explicit: the editor carries the sequence of placement
  calls it has received, and every wrapper returns the editor after its calls, together
  with either the unit value or the error that stopped it.

  Vector components are mathematical integers (the data model speaks of 3D integer
  vectors); the component width of the vector library is not modelled.
\<close>

datatype ivec2 = ivec2 (ux: int) (uz: int)

datatype ivec3 = ivec3 (vx: int) (vy: int) (vz: int)

datatype bvec3 = bvec3 bool bool bool

text \<open>\<open>a + b\<close> on two vectors and \<open>a - k\<close> on a vector and a scalar, component by component.\<close>

definition vadd :: "ivec3 \<Rightarrow> ivec3 \<Rightarrow> ivec3" where
  "vadd a b = ivec3 (vx a + vx b) (vy a + vy b) (vz a + vz b)"

definition vsub_scalar :: "ivec3 \<Rightarrow> int \<Rightarrow> ivec3" where
  "vsub_scalar a k = ivec3 (vx a - k) (vy a - k) (vz a - k)"

text \<open>\<open>sum(pos)\<close>: Python's \<open>sum\<close> over the three components.\<close>

definition vsum :: "ivec3 \<Rightarrow> int" where
  "vsum a = vx a + vy a + vz a"

text \<open>A block: its identifier and its orientation-dependent states.\<close>

datatype Block = Block (block_id: string) (block_states: "(string \<times> string) list")

text \<open>\<open>Block("")\<close>, the value of the parameter \<open>block2\<close> when the caller leaves it out.\<close>

definition default_block2 :: Block where
  "default_block2 = Block '''' []"

text \<open>The replace filter: one identifier or a list of identifiers; \<open>None\<close> when absent.\<close>

datatype replace = ReplaceOne string | ReplaceMany "string list"

record Transform =
  translation :: ivec3
  rotation :: int
  flip :: bvec3

record Box =
  offset :: ivec3
  size_v :: ivec3


text \<open>
  The editor's two placement operations take a single point or an iterable of points.
\<close>

datatype target = Point ivec3 | Points "ivec3 list"

datatype call =
    PlaceBlock target Block "replace option"
  | PlaceBlockGlobal target Block "replace option"

fun call_target :: "call \<Rightarrow> target" where
  "call_target (PlaceBlock t b r) = t"
| "call_target (PlaceBlockGlobal t b r) = t"

fun call_block :: "call \<Rightarrow> Block" where
  "call_block (PlaceBlock t b r) = b"
| "call_block (PlaceBlockGlobal t b r) = b"

text \<open>
  The editor, as far as this layer sees it: its current transform, and the placement
  calls made on it so far, oldest first.
\<close>

record editor =
  transform :: Transform
  calls :: "call list"

text \<open>\<open>diameters: Union[ivec2, int]\<close>\<close>

datatype diameters = Diameters ivec2 | Diameter int

section \<open>Collaborators\<close>

text \<open>
  The operations of the other modules whose code is not part of this layer. Each one may
  raise; \<open>'e\<close> is the type of what they raise, and the layer is defined for every
  \<open>'e\<close>: it has no error value of its own to return.

  \<^item> \<open>transform_apply t v\<close> is \<open>t * v\<close>;
  \<^item> \<open>block_transformed b rot fl\<close> is \<open>b.transformed(rot, fl)\<close>;
  \<^item> \<open>index_other v i\<close> is what the vector type does for \<open>v[i]\<close> when \<open>i\<close> is
    none of 0, 1, 2;
  \<^item> \<open>line3D\<close>, \<open>lineSequence3D\<close>, \<open>cylinder\<close> and \<open>fittingCylinder\<close> are the point
    generators, read out as the list of points they yield (a generator that raises
    while it is read is taken to raise before the placement call is recorded);
  \<^item> \<open>editor_rejects k\<close> is the error with which the editor answers the placement call
    \<open>k\<close>, if it does.
\<close>

record 'e collab =
  transform_apply :: "Transform \<Rightarrow> ivec3 \<Rightarrow> 'e + ivec3"
  block_transformed :: "Block \<Rightarrow> int \<Rightarrow> bvec3 \<Rightarrow> 'e + Block"
  index_other :: "ivec3 \<Rightarrow> int \<Rightarrow> 'e + int"
  line3D :: "ivec3 \<Rightarrow> ivec3 \<Rightarrow> int \<Rightarrow> 'e + ivec3 list"
  lineSequence3D :: "ivec3 list \<Rightarrow> bool \<Rightarrow> 'e + ivec3 list"
  cylinder :: "ivec3 \<Rightarrow> diameters \<Rightarrow> int \<Rightarrow> int \<Rightarrow> bool \<Rightarrow> bool \<Rightarrow> 'e + ivec3 list"
  fittingCylinder :: "ivec3 \<Rightarrow> ivec3 \<Rightarrow> int \<Rightarrow> bool \<Rightarrow> bool \<Rightarrow> 'e + ivec3 list"
  editor_rejects :: "call \<Rightarrow> 'e option"

text \<open>
  A placement call reaches the editor, which records it, and then either returns or
  raises.
\<close>

definition editor_call :: "'e collab \<Rightarrow> editor \<Rightarrow> call \<Rightarrow> ('e + unit) \<times> editor" where
  "editor_call c e k =
     ((case editor_rejects c k of None \<Rightarrow> Inr () | Some err \<Rightarrow> Inl err),
      e\<lparr>calls := calls e @ [k]\<rparr>)"

definition placeBlock ::
  "'e collab \<Rightarrow> editor \<Rightarrow> target \<Rightarrow> Block \<Rightarrow> replace option \<Rightarrow> ('e + unit) \<times> editor" where
  "placeBlock c e t block replace = editor_call c e (PlaceBlock t block replace)"

definition placeBlockGlobal ::
  "'e collab \<Rightarrow> editor \<Rightarrow> target \<Rightarrow> Block \<Rightarrow> replace option \<Rightarrow> ('e + unit) \<times> editor" where
  "placeBlockGlobal c e t block replace = editor_call c e (PlaceBlockGlobal t block replace)"

text \<open>\<open>v[i]\<close> on a vector: the component for 0, 1 and 2, the vector type's answer otherwise.\<close>

definition vec_index :: "'e collab \<Rightarrow> ivec3 \<Rightarrow> int \<Rightarrow> 'e + int" where
  "vec_index c v i =
     (if i = 0 then Inr (vx v)
      else if i = 1 then Inr (vy v)
      else if i = 2 then Inr (vz v)
      else index_other c v i)"

subsection \<open>Boxes and rectangles\<close>

text \<open>
  Modelled from the spec: the properties \<open>begin\<close> and \<open>end\<close> of \<open>Box\<close>, which
  \<open>vector_tools\<close> defines. The spec gives \<open>end = offset + size\<close>; \<open>begin\<close> is the
  offset.
\<close>

definition begin_box :: "Box \<Rightarrow> ivec3" where
  "begin_box box = offset box"

definition end_box :: "Box \<Rightarrow> ivec3" where
  "end_box box = vadd (offset box) (size_v box)"

text \<open>
  Modelled from the spec: \<open>Box(size=s)\<close>, the constructor of \<open>vector_tools\<close> called
  without an offset; the spec calls the positions of this box local to the box and
  0-based, so the offset left out is the zero vector.
\<close>

definition Box_of_size :: "ivec3 \<Rightarrow> Box" where
  "Box_of_size s = \<lparr>offset = ivec3 0 0 0, size_v = s\<rparr>"

text \<open>
  Modelled from the spec: \<open>Box.between(a, b)\<close>, the normalizing constructor of
  \<open>vector_tools\<close>: the closed box spanning two corners given in any order.
\<close>

definition between :: "ivec3 \<Rightarrow> ivec3 \<Rightarrow> Box" where
  "between a b =
     \<lparr>offset = ivec3 (min (vx a) (vx b)) (min (vy a) (vy b)) (min (vz a) (vz b)),
      size_v = ivec3 (\<bar>vx b - vx a\<bar> + 1) (\<bar>vy b - vy a\<bar> + 1) (\<bar>vz b - vz a\<bar> + 1)\<rparr>"

text \<open>
  Modelled from the spec: \<open>Box.inner\<close> of \<open>vector_tools\<close>, all points of the box, from
  \<open>begin\<close> up to but excluding \<open>end\<close> on every axis. The spec fixes the points and not
  their order; the order here is x outermost, z innermost.
\<close>

definition inner :: "Box \<Rightarrow> ivec3 list" where
  "inner box =
     concat (map (\<lambda>i. concat (map (\<lambda>j. map (\<lambda>k. ivec3 i j k)
         [vz (begin_box box) .. vz (end_box box) - 1])
       [vy (begin_box box) .. vy (end_box box) - 1]))
     [vx (begin_box box) .. vx (end_box box) - 1])"

text \<open>
  Modelled from the spec: \<open>Box.shell\<close> and \<open>Box.wireframe\<close> of \<open>vector_tools\<close>: the
  boundary positions of the box (thickness 1), and its twelve edges.
\<close>

definition on_faces :: "Box \<Rightarrow> ivec3 \<Rightarrow> nat" where
  "on_faces box p =
     (if vx p = vx (begin_box box) \<or> vx p = vx (end_box box) - 1 then 1 else 0) +
     (if vy p = vy (begin_box box) \<or> vy p = vy (end_box box) - 1 then 1 else 0) +
     (if vz p = vz (begin_box box) \<or> vz p = vz (end_box box) - 1 then 1 else 0)"

definition shell :: "Box \<Rightarrow> ivec3 list" where
  "shell box = filter (\<lambda>p. 1 \<le> on_faces box p) (inner box)"

definition wireframe :: "Box \<Rightarrow> ivec3 list" where
  "wireframe box = filter (\<lambda>p. 2 \<le> on_faces box p) (inner box)"


section \<open>The placement functions\<close>

definition placeCuboid ::
  "'e collab \<Rightarrow> editor \<Rightarrow> ivec3 \<Rightarrow> ivec3 \<Rightarrow> Block \<Rightarrow> replace option \<Rightarrow> ('e + unit) \<times> editor" where
  "placeCuboid c e first last_pt block replace =
     (case transform_apply c (transform e) first of
        Inl err \<Rightarrow> (Inl err, e)
      | Inr first' \<Rightarrow>
         (case transform_apply c (transform e) last_pt of
            Inl err \<Rightarrow> (Inl err, e)
          | Inr last_pt' \<Rightarrow>
             (case block_transformed c block (rotation (transform e)) (flip (transform e)) of
                Inl err \<Rightarrow> (Inl err, e)
              | Inr block' \<Rightarrow>
                 placeBlockGlobal c e (Points (inner (between first' last_pt'))) block' replace)))"

definition placeCuboidHollow ::
  "'e collab \<Rightarrow> editor \<Rightarrow> ivec3 \<Rightarrow> ivec3 \<Rightarrow> Block \<Rightarrow> replace option \<Rightarrow> ('e + unit) \<times> editor" where
  "placeCuboidHollow c e first last_pt block replace =
     (case transform_apply c (transform e) first of
        Inl err \<Rightarrow> (Inl err, e)
      | Inr first' \<Rightarrow>
         (case transform_apply c (transform e) last_pt of
            Inl err \<Rightarrow> (Inl err, e)
          | Inr last_pt' \<Rightarrow>
             (case block_transformed c block (rotation (transform e)) (flip (transform e)) of
                Inl err \<Rightarrow> (Inl err, e)
              | Inr block' \<Rightarrow>
                 placeBlockGlobal c e (Points (shell (between first' last_pt'))) block' replace)))"

definition placeCuboidWireframe ::
  "'e collab \<Rightarrow> editor \<Rightarrow> ivec3 \<Rightarrow> ivec3 \<Rightarrow> Block \<Rightarrow> replace option \<Rightarrow> ('e + unit) \<times> editor" where
  "placeCuboidWireframe c e first last_pt block replace =
     (case transform_apply c (transform e) first of
        Inl err \<Rightarrow> (Inl err, e)
      | Inr first' \<Rightarrow>
         (case transform_apply c (transform e) last_pt of
            Inl err \<Rightarrow> (Inl err, e)
          | Inr last_pt' \<Rightarrow>
             (case block_transformed c block (rotation (transform e)) (flip (transform e)) of
                Inl err \<Rightarrow> (Inl err, e)
              | Inr block' \<Rightarrow>
                 placeBlockGlobal c e (Points (wireframe (between first' last_pt'))) block' replace)))"

definition placeBox ::
  "'e collab \<Rightarrow> editor \<Rightarrow> Box \<Rightarrow> Block \<Rightarrow> replace option \<Rightarrow> ('e + unit) \<times> editor" where
  "placeBox c e box block replace =
     (if vx (size_v box) = 0 \<or> vy (size_v box) = 0 \<or> vz (size_v box) = 0 then (Inr (), e)
      else placeCuboid c e (begin_box box) (vsub_scalar (end_box box) 1) block replace)"

definition placeBoxHollow ::
  "'e collab \<Rightarrow> editor \<Rightarrow> Box \<Rightarrow> Block \<Rightarrow> replace option \<Rightarrow> ('e + unit) \<times> editor" where
  "placeBoxHollow c e box block replace =
     (if vx (size_v box) = 0 \<or> vy (size_v box) = 0 \<or> vz (size_v box) = 0 then (Inr (), e)
      else placeCuboidHollow c e (begin_box box) (vsub_scalar (end_box box) 1) block replace)"

definition placeBoxWireframe ::
  "'e collab \<Rightarrow> editor \<Rightarrow> Box \<Rightarrow> Block \<Rightarrow> replace option \<Rightarrow> ('e + unit) \<times> editor" where
  "placeBoxWireframe c e box block replace =
     (if vx (size_v box) = 0 \<or> vy (size_v box) = 0 \<or> vz (size_v box) = 0 then (Inr (), e)
      else placeCuboidWireframe c e (begin_box box) (vsub_scalar (end_box box) 1) block replace)"



text \<open>
  The loop of \<open>placeCheckeredBox\<close> over the remaining box-local positions: one
  \<open>placeBlock\<close> call per position; an error ends the loop.
\<close>

fun checkered_loop ::
  "'e collab \<Rightarrow> editor \<Rightarrow> Box \<Rightarrow> Block \<Rightarrow> Block \<Rightarrow> replace option \<Rightarrow> ivec3 list
     \<Rightarrow> ('e + unit) \<times> editor" where
  "checkered_loop c e box block1 block2 replace [] = (Inr (), e)"
| "checkered_loop c e box block1 block2 replace (pos # rest) =
     (case placeBlock c e (Point (vadd (offset box) pos))
             (if vsum pos mod 2 = 0 then block1 else block2) replace of
        (Inl err, e') \<Rightarrow> (Inl err, e')
      | (Inr u, e') \<Rightarrow> checkered_loop c e' box block1 block2 replace rest)"

definition placeCheckeredBox ::
  "'e collab \<Rightarrow> editor \<Rightarrow> Box \<Rightarrow> Block \<Rightarrow> Block \<Rightarrow> replace option \<Rightarrow> ('e + unit) \<times> editor" where
  "placeCheckeredBox c e box block1 block2 replace =
     checkered_loop c e box block1 block2 replace (inner (Box_of_size (size_v box)))"


text \<open>
  The loop of \<open>placeStripedBox\<close>: the argument \<open>pos[stripeAxis]\<close> is evaluated before
  the call.
\<close>

fun striped_loop ::
  "'e collab \<Rightarrow> editor \<Rightarrow> Box \<Rightarrow> int \<Rightarrow> Block \<Rightarrow> Block \<Rightarrow> replace option \<Rightarrow> ivec3 list
     \<Rightarrow> ('e + unit) \<times> editor" where
  "striped_loop c e box stripeAxis block1 block2 replace [] = (Inr (), e)"
| "striped_loop c e box stripeAxis block1 block2 replace (pos # rest) =
     (case vec_index c pos stripeAxis of
        Inl err \<Rightarrow> (Inl err, e)
      | Inr v \<Rightarrow>
         (case placeBlock c e (Point (vadd (offset box) pos))
                 (if v mod 2 = 0 then block1 else block2) replace of
            (Inl err, e') \<Rightarrow> (Inl err, e')
          | (Inr u, e') \<Rightarrow> striped_loop c e' box stripeAxis block1 block2 replace rest))"

definition placeStripedBox ::
  "'e collab \<Rightarrow> editor \<Rightarrow> Box \<Rightarrow> int \<Rightarrow> Block \<Rightarrow> Block \<Rightarrow> replace option
     \<Rightarrow> ('e + unit) \<times> editor" where
  "placeStripedBox c e box stripeAxis block1 block2 replace =
     striped_loop c e box stripeAxis block1 block2 replace (inner (Box_of_size (size_v box)))"


definition placeLine ::
  "'e collab \<Rightarrow> editor \<Rightarrow> ivec3 \<Rightarrow> ivec3 \<Rightarrow> Block \<Rightarrow> int \<Rightarrow> replace option
     \<Rightarrow> ('e + unit) \<times> editor" where
  "placeLine c e first last_pt block width replace =
     (case transform_apply c (transform e) first of
        Inl err \<Rightarrow> (Inl err, e)
      | Inr first' \<Rightarrow>
         (case transform_apply c (transform e) last_pt of
            Inl err \<Rightarrow> (Inl err, e)
          | Inr last_pt' \<Rightarrow>
             (case block_transformed c block (rotation (transform e)) (flip (transform e)) of
                Inl err \<Rightarrow> (Inl err, e)
              | Inr block' \<Rightarrow>
                 (case line3D c first' last_pt' width of
                    Inl err \<Rightarrow> (Inl err, e)
                  | Inr pts \<Rightarrow> placeBlockGlobal c e (Points pts) block' replace))))"

definition placeLineSequence ::
  "'e collab \<Rightarrow> editor \<Rightarrow> ivec3 list \<Rightarrow> Block \<Rightarrow> bool \<Rightarrow> replace option
     \<Rightarrow> ('e + unit) \<times> editor" where
  "placeLineSequence c e points block closed replace =
     (case lineSequence3D c points closed of
        Inl err \<Rightarrow> (Inl err, e)
      | Inr pts \<Rightarrow> placeBlock c e (Points pts) block replace)"

definition placeCylinder ::
  "'e collab \<Rightarrow> editor \<Rightarrow> ivec3 \<Rightarrow> diameters \<Rightarrow> int \<Rightarrow> Block \<Rightarrow> int \<Rightarrow> bool \<Rightarrow> bool
     \<Rightarrow> replace option \<Rightarrow> ('e + unit) \<times> editor" where
  "placeCylinder c e baseCenter diams length_c block axis tube hollow replace =
     (case cylinder c baseCenter diams length_c axis tube hollow of
        Inl err \<Rightarrow> (Inl err, e)
      | Inr pts \<Rightarrow> placeBlock c e (Points pts) block replace)"

definition placeFittingCylinder ::
  "'e collab \<Rightarrow> editor \<Rightarrow> ivec3 \<Rightarrow> ivec3 \<Rightarrow> Block \<Rightarrow> int \<Rightarrow> bool \<Rightarrow> bool \<Rightarrow> replace option
     \<Rightarrow> ('e + unit) \<times> editor" where
  "placeFittingCylinder c e corner1 corner2 block axis tube hollow replace =
     (case transform_apply c (transform e) corner1 of
        Inl err \<Rightarrow> (Inl err, e)
      | Inr corner1' \<Rightarrow>
         (case transform_apply c (transform e) corner2 of
            Inl err \<Rightarrow> (Inl err, e)
          | Inr corner2' \<Rightarrow>
             (case block_transformed c block (rotation (transform e)) (flip (transform e)) of
                Inl err \<Rightarrow> (Inl err, e)
              | Inr block' \<Rightarrow>
                 (case fittingCylinder c corner1' corner2' axis tube hollow of
                    Inl err \<Rightarrow> (Inl err, e)
                  | Inr pts \<Rightarrow> placeBlockGlobal c e (Points pts) block' replace))))"

subsection \<open>Every entry point of the layer\<close>





text \<open>The calls a run added to the editor.\<close>

definition new_calls :: "editor \<Rightarrow> ('e + unit) \<times> editor \<Rightarrow> call list" where
  "new_calls e res = drop (length (calls e)) (calls (snd res))"

subsection \<open>The line sequence of the spec\<close>

text \<open>
  Modelled from the spec: \<open>lineSequence3D(points, closed)\<close> of \<open>vector_tools\<close>:
  connected line segments through an ordered sequence of points and, if \<open>closed\<close>, a
  segment from the last point back to the first. The segments are those of the
  line generator, of width 1.
\<close>

fun segments :: "(ivec3 \<Rightarrow> ivec3 \<Rightarrow> int \<Rightarrow> 'e + ivec3 list) \<Rightarrow> ivec3 list \<Rightarrow> 'e + ivec3 list" where
  "segments ln (p # q # rest) =
     (case ln p q 1 of
        Inl err \<Rightarrow> Inl err
      | Inr s \<Rightarrow> (case segments ln (q # rest) of Inl err \<Rightarrow> Inl err | Inr t \<Rightarrow> Inr (s @ t)))"
| "segments ln ps = Inr []"

definition lineSequence3D_spec ::
  "(ivec3 \<Rightarrow> ivec3 \<Rightarrow> int \<Rightarrow> 'e + ivec3 list) \<Rightarrow> ivec3 list \<Rightarrow> bool \<Rightarrow> 'e + ivec3 list" where
  "lineSequence3D_spec ln points closed =
     (case segments ln points of
        Inl err \<Rightarrow> Inl err
      | Inr s \<Rightarrow>
         (if closed \<and> points \<noteq> [] then
            (case ln (last points) (hd points) 1 of Inl err \<Rightarrow> Inl err | Inr t \<Rightarrow> Inr (s @ t))
          else Inr s))"

subsection \<open>Reading positions\<close>

text \<open>
  The component of a position along an axis 0, 1 or 2, and the unit step along it.
\<close>

definition component :: "int \<Rightarrow> ivec3 \<Rightarrow> int" where
  "component axis p = (if axis = 0 then vx p else if axis = 1 then vy p else vz p)"

definition unit_step :: "int \<Rightarrow> ivec3" where
  "unit_step axis =
     ivec3 (if axis = 0 then 1 else 0) (if axis = 1 then 1 else 0) (if axis = 2 then 1 else 0)"

subsection \<open>Example collaborators\<close>

text \<open>
  Two concrete sets of collaborators, to run the layer on. With \<open>offline\<close> every
  collaborator raises. With \<open>plain\<close> the transform is its translation, blocks keep
  their states, a line is its two end points with their midpoint between them, a
  cylinder is its base centre, a fitting cylinder is its two corners, an index other
  than 0, 1, 2 raises, and the editor accepts every call.
\<close>

definition offline :: "string collab" where
  "offline =
     \<lparr>transform_apply = (\<lambda>t v. Inl ''transform''),
      block_transformed = (\<lambda>b rot fl. Inl ''block''),
      index_other = (\<lambda>v i. Inl ''index''),
      line3D = (\<lambda>a b w. Inl ''line3D''),
      lineSequence3D = (\<lambda>ps cl. Inl ''lineSequence3D''),
      cylinder = (\<lambda>ctr d len ax tu ho. Inl ''cylinder''),
      fittingCylinder = (\<lambda>a b ax tu ho. Inl ''fittingCylinder''),
      editor_rejects = (\<lambda>k. Some ''editor'')\<rparr>"

definition midpoint :: "ivec3 \<Rightarrow> ivec3 \<Rightarrow> ivec3" where
  "midpoint a b = ivec3 ((vx a + vx b) div 2) ((vy a + vy b) div 2) ((vz a + vz b) div 2)"

definition plain :: "string collab" where
  "plain =
     \<lparr>transform_apply = (\<lambda>t v. Inr (vadd v (translation t))),
      block_transformed = (\<lambda>b rot fl. Inr b),
      index_other = (\<lambda>v i. Inl ''index''),
      line3D = (\<lambda>a b w. Inr [a, midpoint a b, b]),
      lineSequence3D = lineSequence3D_spec (\<lambda>a b w. Inr [a, midpoint a b, b]),
      cylinder = (\<lambda>ctr d len ax tu ho. Inr [ctr]),
      fittingCylinder = (\<lambda>a b ax tu ho. Inr [a, b]),
      editor_rejects = (\<lambda>k. None)\<rparr>"

definition editor0 :: editor where
  "editor0 =
     \<lparr>transform = \<lparr>translation = ivec3 0 0 0, rotation = 0, flip = bvec3 False False False\<rparr>,
      calls = []\<rparr>"

text \<open>
  An editor whose transform moves every point by \<open>(10, 20, 30)\<close>, and collaborators
  that are \<open>plain\<close> except that a transformed block records the rotation in its
  states.
\<close>

definition editor1 :: editor where
  "editor1 =
     \<lparr>transform = \<lparr>translation = ivec3 10 20 30, rotation = 1, flip = bvec3 False False False\<rparr>,
      calls = []\<rparr>"

definition turning :: "string collab" where
  "turning =
     plain\<lparr>block_transformed :=
       (\<lambda>b rot fl. Inr (Block (block_id b)
          ((''facing'', if rot = 0 then ''north'' else ''east'') # block_states b)))\<rparr>"

definition stone :: Block where
  "stone = Block ''minecraft:stone'' []"

section \<open>The zero-size guard\<close>

text \<open>
  Claim C1. For a box with a size component equal to zero, \<open>placeBox\<close>,
  \<open>placeBoxHollow\<close> and \<open>placeBoxWireframe\<close> return normally and leave the editor as it
  was: no placement call is made. The test comes before the delegation to the cuboid
  function: the result does not depend on the collaborators at all, so it is the same
  when the transform, the block or the editor would raise.
\<close>

theorem placeBox_zero_size_noop:
  assumes "vx (size_v box) = 0 \<or> vy (size_v box) = 0 \<or> vz (size_v box) = 0"
  shows "placeBox c e box block replace = (Inr (), e)
       \<and> placeBoxHollow c e box block replace = (Inr (), e)
       \<and> placeBoxWireframe c e box block replace = (Inr (), e)"
  using assms by (simp add: placeBox_def placeBoxHollow_def placeBoxWireframe_def)

theorem placeBox_zero_size_noop_witness:
  "placeBox offline editor0 \<lparr>offset = ivec3 4 5 6, size_v = ivec3 3 0 2\<rparr> stone None
     = (Inr (), editor0)
   \<and> placeBoxHollow offline editor0 \<lparr>offset = ivec3 4 5 6, size_v = ivec3 3 0 2\<rparr> stone None
     = (Inr (), editor0)
   \<and> placeBoxWireframe offline editor0 \<lparr>offset = ivec3 4 5 6, size_v = ivec3 3 0 2\<rparr> stone None
     = (Inr (), editor0)"
  using placeBox_zero_size_noop [of "\<lparr>offset = ivec3 4 5 6, size_v = ivec3 3 0 2\<rparr>"
      offline editor0 stone None]
  by simp

section \<open>Cuboids\<close>

text \<open>The points of a box, and of the box between two corners.\<close>

lemma in_inner_iff:
  "p \<in> set (inner box) \<longleftrightarrow>
     vx (begin_box box) \<le> vx p \<and> vx p < vx (end_box box)
     \<and> vy (begin_box box) \<le> vy p \<and> vy p < vy (end_box box)
     \<and> vz (begin_box box) \<le> vz p \<and> vz p < vz (end_box box)"
proof (cases p)
  case (ivec3 i j k)
  have "ivec3 i j k \<in> set (inner box) \<longleftrightarrow>
      (\<exists>a\<in>{vx (begin_box box) .. vx (end_box box) - 1}.
       \<exists>b\<in>{vy (begin_box box) .. vy (end_box box) - 1}.
       \<exists>d\<in>{vz (begin_box box) .. vz (end_box box) - 1}. ivec3 i j k = ivec3 a b d)"
    by (simp add: inner_def image_iff)
  also have "\<dots> \<longleftrightarrow>
      i \<in> {vx (begin_box box) .. vx (end_box box) - 1}
    \<and> j \<in> {vy (begin_box box) .. vy (end_box box) - 1}
    \<and> k \<in> {vz (begin_box box) .. vz (end_box box) - 1}"
    by auto
  finally have "ivec3 i j k \<in> set (inner box) \<longleftrightarrow>
      i \<in> {vx (begin_box box) .. vx (end_box box) - 1}
    \<and> j \<in> {vy (begin_box box) .. vy (end_box box) - 1}
    \<and> k \<in> {vz (begin_box box) .. vz (end_box box) - 1}" .
  with ivec3 show ?thesis by auto
qed

lemma between_commute: "between a b = between b a"
  by (simp add: between_def min.commute abs_minus_commute)

lemma in_inner_between_iff:
  "p \<in> set (inner (between a b)) \<longleftrightarrow>
     min (vx a) (vx b) \<le> vx p \<and> vx p \<le> max (vx a) (vx b)
       \<and> min (vy a) (vy b) \<le> vy p \<and> vy p \<le> max (vy a) (vy b)
       \<and> min (vz a) (vz b) \<le> vz p \<and> vz p \<le> max (vz a) (vz b)"
  unfolding in_inner_iff
  by (simp add: between_def begin_box_def end_box_def vadd_def) linarith


lemma placeCuboid_calls:
  assumes "transform_apply c (transform e) first = Inr first'"
    and "transform_apply c (transform e) last_pt = Inr last_pt'"
    and "block_transformed c block (rotation (transform e)) (flip (transform e)) = Inr block'"
  shows "calls (snd (placeCuboid c e first last_pt block replace)) =
           calls e @ [PlaceBlockGlobal (Points (inner (between first' last_pt'))) block' replace]"
  using assms by (simp add: placeCuboid_def placeBlockGlobal_def editor_call_def)

lemma placeCuboid_swap_calls:
  "calls (snd (placeCuboid c e first last_pt block replace)) =
   calls (snd (placeCuboid c e last_pt first block replace))"
  by (simp add: placeCuboid_def placeBlockGlobal_def editor_call_def between_commute
        split: sum.splits)

text \<open>
  Claim C2. When the transform accepts the two corners and the block, \<open>placeCuboid\<close>
  makes one \<open>placeBlockGlobal\<close> call whose points are exactly the integer points of the
  closed axis-aligned box spanned by the two transformed corners. Swapping \<open>first\<close> and
  \<open>last\<close> leaves the placement calls the same in every case, and the whole result the
  same whenever the function returns normally.
\<close>

theorem placeCuboid_fills_closed_box:
  "(transform_apply c (transform e) first = Inr first' \<and>
    transform_apply c (transform e) last_pt = Inr last_pt' \<and>
    block_transformed c block (rotation (transform e)) (flip (transform e)) = Inr block' \<longrightarrow>
      (\<exists>pts. calls (snd (placeCuboid c e first last_pt block replace)) =
                calls e @ [PlaceBlockGlobal (Points pts) block' replace]
           \<and> set pts =
                {p. min (vx first') (vx last_pt') \<le> vx p \<and> vx p \<le> max (vx first') (vx last_pt')
                  \<and> min (vy first') (vy last_pt') \<le> vy p \<and> vy p \<le> max (vy first') (vy last_pt')
                  \<and> min (vz first') (vz last_pt') \<le> vz p \<and> vz p \<le> max (vz first') (vz last_pt')}))
   \<and> calls (snd (placeCuboid c e first last_pt block replace)) =
     calls (snd (placeCuboid c e last_pt first block replace))
   \<and> (fst (placeCuboid c e first last_pt block replace) = Inr () \<longrightarrow>
        placeCuboid c e last_pt first block replace = placeCuboid c e first last_pt block replace)"
proof (intro conjI impI)
  assume h: "transform_apply c (transform e) first = Inr first' \<and>
    transform_apply c (transform e) last_pt = Inr last_pt' \<and>
    block_transformed c block (rotation (transform e)) (flip (transform e)) = Inr block'"
  have "set (inner (between first' last_pt')) =
                {p. min (vx first') (vx last_pt') \<le> vx p \<and> vx p \<le> max (vx first') (vx last_pt')
                  \<and> min (vy first') (vy last_pt') \<le> vy p \<and> vy p \<le> max (vy first') (vy last_pt')
                  \<and> min (vz first') (vz last_pt') \<le> vz p \<and> vz p \<le> max (vz first') (vz last_pt')}"
    using in_inner_between_iff by blast
  with h placeCuboid_calls [of c e first first' last_pt last_pt' block block' replace]
  show "\<exists>pts. calls (snd (placeCuboid c e first last_pt block replace)) =
                calls e @ [PlaceBlockGlobal (Points pts) block' replace]
           \<and> set pts =
                {p. min (vx first') (vx last_pt') \<le> vx p \<and> vx p \<le> max (vx first') (vx last_pt')
                  \<and> min (vy first') (vy last_pt') \<le> vy p \<and> vy p \<le> max (vy first') (vy last_pt')
                  \<and> min (vz first') (vz last_pt') \<le> vz p \<and> vz p \<le> max (vz first') (vz last_pt')}"
    by blast
next
  show "calls (snd (placeCuboid c e first last_pt block replace)) =
     calls (snd (placeCuboid c e last_pt first block replace))"
    by (rule placeCuboid_swap_calls)
next
  assume "fst (placeCuboid c e first last_pt block replace) = Inr ()"
  then show "placeCuboid c e last_pt first block replace = placeCuboid c e first last_pt block replace"
    by (simp add: placeCuboid_def between_commute split: sum.splits)
qed

theorem placeCuboid_fills_closed_box_witness:
  "\<exists>pts. calls (snd (placeCuboid plain editor0 (ivec3 0 0 0) (ivec3 1 0 1) stone None)) =
            [PlaceBlockGlobal (Points pts) stone None]
       \<and> set pts = {ivec3 0 0 0, ivec3 1 0 0, ivec3 0 0 1, ivec3 1 0 1}"
proof -
  have "{p. (0::int) \<le> vx p \<and> vx p \<le> 1 \<and> 0 \<le> vy p \<and> vy p \<le> 0 \<and> 0 \<le> vz p \<and> vz p \<le> 1}
        = {ivec3 0 0 0, ivec3 1 0 0, ivec3 0 0 1, ivec3 1 0 1}" (is "?L = ?R")
  proof (rule set_eqI)
    fix p show "p \<in> ?L \<longleftrightarrow> p \<in> ?R"
      by (cases p) (simp, presburger)
  qed
  moreover have "transform_apply plain (transform editor0) (ivec3 0 0 0) = Inr (ivec3 0 0 0)"
    and "transform_apply plain (transform editor0) (ivec3 1 0 1) = Inr (ivec3 1 0 1)"
    and "block_transformed plain stone (rotation (transform editor0)) (flip (transform editor0))
           = Inr stone"
    and "calls editor0 = []"
    by (simp_all add: plain_def editor0_def vadd_def)
  ultimately show ?thesis
    using placeCuboid_fills_closed_box [of plain editor0 "ivec3 0 0 0" "ivec3 0 0 0"
        "ivec3 1 0 1" "ivec3 1 0 1" stone stone None, THEN conjunct1]
    by simp
qed


section \<open>Boxes of negative size\<close>

text \<open>
  Claim C9. The guard of \<open>placeBox\<close>, \<open>placeBoxHollow\<close> and \<open>placeBoxWireframe\<close> tests
  each size component against zero and nothing else: for a box with no zero component,
  so also for one with a negative component, the call is the corresponding cuboid
  function on the corners \<open>box.begin\<close> and \<open>box.end - 1\<close>. The example is a box of size
  \<open>(-2, 1, 1)\<close> at the origin, for which four positions are placed.
\<close>

theorem placeBox_nonzero_size_delegates:
  assumes "vx (size_v box) \<noteq> 0" and "vy (size_v box) \<noteq> 0" and "vz (size_v box) \<noteq> 0"
  shows "placeBox c e box block replace =
           placeCuboid c e (begin_box box) (vsub_scalar (end_box box) 1) block replace
       \<and> placeBoxHollow c e box block replace =
           placeCuboidHollow c e (begin_box box) (vsub_scalar (end_box box) 1) block replace
       \<and> placeBoxWireframe c e box block replace =
           placeCuboidWireframe c e (begin_box box) (vsub_scalar (end_box box) 1) block replace"
  using assms by (simp add: placeBox_def placeBoxHollow_def placeBoxWireframe_def)

theorem placeBox_nonzero_size_delegates_witness:
  "placeBox plain editor0 \<lparr>offset = ivec3 0 0 0, size_v = ivec3 (- 2) 1 1\<rparr> stone None =
     placeCuboid plain editor0 (ivec3 0 0 0) (ivec3 (- 3) 0 0) stone None
   \<and> placeBoxHollow plain editor0 \<lparr>offset = ivec3 0 0 0, size_v = ivec3 (- 2) 1 1\<rparr> stone None =
     placeCuboidHollow plain editor0 (ivec3 0 0 0) (ivec3 (- 3) 0 0) stone None
   \<and> placeBoxWireframe plain editor0 \<lparr>offset = ivec3 0 0 0, size_v = ivec3 (- 2) 1 1\<rparr> stone None =
     placeCuboidWireframe plain editor0 (ivec3 0 0 0) (ivec3 (- 3) 0 0) stone None
   \<and> calls (snd (placeCuboid plain editor0 (ivec3 0 0 0) (ivec3 (- 3) 0 0) stone None)) =
     [PlaceBlockGlobal (Points [ivec3 (- 3) 0 0, ivec3 (- 2) 0 0, ivec3 (- 1) 0 0, ivec3 0 0 0])
        stone None]"
proof -
  have "calls (snd (placeCuboid plain editor0 (ivec3 0 0 0) (ivec3 (- 3) 0 0) stone None)) =
     [PlaceBlockGlobal (Points [ivec3 (- 3) 0 0, ivec3 (- 2) 0 0, ivec3 (- 1) 0 0, ivec3 0 0 0])
        stone None]"
    by (simp add: placeCuboid_def placeBlockGlobal_def editor_call_def plain_def editor0_def
          vadd_def between_def inner_def begin_box_def end_box_def upto.simps)
  then show ?thesis
    using placeBox_nonzero_size_delegates
      [of "\<lparr>offset = ivec3 0 0 0, size_v = ivec3 (- 2) 1 1\<rparr>" plain editor0 stone None]
    by (simp add: begin_box_def end_box_def vadd_def vsub_scalar_def)
qed

section \<open>Patterned boxes\<close>

text \<open>
  Each loop makes one \<open>placeBlock\<close> call per position, in the order of the positions,
  until the editor raises: the calls made are an initial part of the calls for all the
  positions, and all of them when the editor accepts every call.
\<close>

lemma checkered_loop_prefix:
  "\<exists>n. calls (snd (checkered_loop c e box block1 block2 replace ps)) =
         calls e @ take n (map (\<lambda>pos. PlaceBlock (Point (vadd (offset box) pos))
                     (if vsum pos mod 2 = 0 then block1 else block2) replace) ps)"
proof (induction ps arbitrary: e)
  case Nil
  show ?case by simp
next
  case (Cons pos rest)
  let ?f = "\<lambda>pos. PlaceBlock (Point (vadd (offset box) pos))
                     (if vsum pos mod 2 = 0 then block1 else block2) replace"
  let ?e' = "e\<lparr>calls := calls e @ [?f pos]\<rparr>"
  show ?case
  proof (cases "editor_rejects c (?f pos)")
    case (Some err)
    then have "calls (snd (checkered_loop c e box block1 block2 replace (pos # rest))) =
                 calls e @ take 1 (map ?f (pos # rest))"
      by (simp add: placeBlock_def editor_call_def)
    then show ?thesis by blast
  next
    case None
    from Cons.IH [of ?e'] obtain n where
      "calls (snd (checkered_loop c ?e' box block1 block2 replace rest)) =
         calls ?e' @ take n (map ?f rest)"
      by blast
    with None have "calls (snd (checkered_loop c e box block1 block2 replace (pos # rest))) =
                 calls e @ take (Suc n) (map ?f (pos # rest))"
      by (simp add: placeBlock_def editor_call_def)
    then show ?thesis by blast
  qed
qed

lemma striped_loop_prefix:
  assumes "stripeAxis = 0 \<or> stripeAxis = 1 \<or> stripeAxis = 2"
  shows "\<exists>n. calls (snd (striped_loop c e box stripeAxis block1 block2 replace ps)) =
         calls e @ take n (map (\<lambda>pos. PlaceBlock (Point (vadd (offset box) pos))
                     (if component stripeAxis pos mod 2 = 0 then block1 else block2) replace) ps)"
proof (induction ps arbitrary: e)
  case Nil
  show ?case by simp
next
  case (Cons pos rest)
  let ?f = "\<lambda>pos. PlaceBlock (Point (vadd (offset box) pos))
                     (if component stripeAxis pos mod 2 = 0 then block1 else block2) replace"
  let ?e' = "e\<lparr>calls := calls e @ [?f pos]\<rparr>"
  have v: "vec_index c pos stripeAxis = Inr (component stripeAxis pos)"
    using assms by (auto simp: vec_index_def component_def)
  show ?case
  proof (cases "editor_rejects c (?f pos)")
    case (Some err)
    then have "calls (snd (striped_loop c e box stripeAxis block1 block2 replace (pos # rest))) =
                 calls e @ take 1 (map ?f (pos # rest))"
      by (simp add: v placeBlock_def editor_call_def)
    then show ?thesis by blast
  next
    case None
    from Cons.IH [of ?e'] obtain n where
      "calls (snd (striped_loop c ?e' box stripeAxis block1 block2 replace rest)) =
         calls ?e' @ take n (map ?f rest)"
      by blast
    with None
    have "calls (snd (striped_loop c e box stripeAxis block1 block2 replace (pos # rest))) =
                 calls e @ take (Suc n) (map ?f (pos # rest))"
      by (simp add: v placeBlock_def editor_call_def)
    then show ?thesis by blast
  qed
qed

lemma checkered_loop_accepted:
  assumes "\<forall>k. editor_rejects c k = None"
  shows "checkered_loop c e box block1 block2 replace ps =
     (Inr (), e\<lparr>calls := calls e @
        map (\<lambda>pos. PlaceBlock (Point (vadd (offset box) pos))
                     (if vsum pos mod 2 = 0 then block1 else block2) replace) ps\<rparr>)"
  using assms
  by (induction ps arbitrary: e) (simp_all add: placeBlock_def editor_call_def)

lemma striped_loop_accepted:
  assumes "\<forall>k. editor_rejects c k = None"
    and "stripeAxis = 0 \<or> stripeAxis = 1 \<or> stripeAxis = 2"
  shows "striped_loop c e box stripeAxis block1 block2 replace ps =
     (Inr (), e\<lparr>calls := calls e @
        map (\<lambda>pos. PlaceBlock (Point (vadd (offset box) pos))
                     (if component stripeAxis pos mod 2 = 0 then block1 else block2) replace) ps\<rparr>)"
  using assms
  by (induction ps arbitrary: e)
     (auto simp add: placeBlock_def editor_call_def vec_index_def component_def)

lemma in_inner_local_iff:
  "p \<in> set (inner (Box_of_size s)) \<longleftrightarrow>
     0 \<le> vx p \<and> vx p < vx s \<and> 0 \<le> vy p \<and> vy p < vy s \<and> 0 \<le> vz p \<and> vz p < vz s"
  by (simp add: in_inner_iff Box_of_size_def begin_box_def end_box_def vadd_def)

text \<open>
  Claim C3. \<open>placeCheckeredBox\<close> walks the positions \<open>pos\<close> of the box of the same size
  at the origin (the positions from 0 up to, and excluding, the size on each axis) and
  makes for each one \<open>placeBlock\<close> call at the point \<open>box.offset + pos\<close>, with \<open>block1\<close>
  when the sum of the components of \<open>pos\<close> is even and \<open>block2\<close> otherwise: the calls
  made are an initial part of that sequence whatever the editor does, and the whole
  sequence when the editor accepts every call. The offset enters the point only: moving
  the box by any vector \<open>v\<close>, an even one in particular, leaves the sequence of blocks
  the same.
\<close>

theorem placeCheckeredBox_pattern:
  "(\<exists>n. new_calls e (placeCheckeredBox c e box block1 block2 replace) =
          take n (map (\<lambda>pos. PlaceBlock (Point (vadd (offset box) pos))
                     (if (vx pos + vy pos + vz pos) mod 2 = 0 then block1 else block2) replace)
                  (inner (Box_of_size (size_v box)))))
   \<and> ((\<forall>k. editor_rejects c k = None) \<longrightarrow>
        placeCheckeredBox c e box block1 block2 replace =
           (Inr (), e\<lparr>calls := calls e @
              map (\<lambda>pos. PlaceBlock (Point (vadd (offset box) pos))
                     (if (vx pos + vy pos + vz pos) mod 2 = 0 then block1 else block2) replace)
                  (inner (Box_of_size (size_v box)))\<rparr>)
      \<and> map call_block
             (new_calls e (placeCheckeredBox c e (box\<lparr>offset := vadd (offset box) v\<rparr>)
                block1 block2 replace)) =
           map call_block (new_calls e (placeCheckeredBox c e box block1 block2 replace)))
   \<and> set (inner (Box_of_size (size_v box))) =
           {pos. 0 \<le> vx pos \<and> vx pos < vx (size_v box)
               \<and> 0 \<le> vy pos \<and> vy pos < vy (size_v box)
               \<and> 0 \<le> vz pos \<and> vz pos < vz (size_v box)}"
proof (intro conjI impI)
  from checkered_loop_prefix [of c e box block1 block2 replace "inner (Box_of_size (size_v box))"]
  obtain n where
    "calls (snd (placeCheckeredBox c e box block1 block2 replace)) =
       calls e @ take n (map (\<lambda>pos. PlaceBlock (Point (vadd (offset box) pos))
                     (if vsum pos mod 2 = 0 then block1 else block2) replace)
                  (inner (Box_of_size (size_v box))))"
    unfolding placeCheckeredBox_def by blast
  then have "new_calls e (placeCheckeredBox c e box block1 block2 replace) =
          take n (map (\<lambda>pos. PlaceBlock (Point (vadd (offset box) pos))
                     (if (vx pos + vy pos + vz pos) mod 2 = 0 then block1 else block2) replace)
                  (inner (Box_of_size (size_v box))))"
    by (simp add: new_calls_def vsum_def)
  then show "\<exists>n. new_calls e (placeCheckeredBox c e box block1 block2 replace) =
          take n (map (\<lambda>pos. PlaceBlock (Point (vadd (offset box) pos))
                     (if (vx pos + vy pos + vz pos) mod 2 = 0 then block1 else block2) replace)
                  (inner (Box_of_size (size_v box))))"
    by blast
next
  assume acc: "\<forall>k. editor_rejects c k = None"
  show "placeCheckeredBox c e box block1 block2 replace =
           (Inr (), e\<lparr>calls := calls e @
              map (\<lambda>pos. PlaceBlock (Point (vadd (offset box) pos))
                     (if (vx pos + vy pos + vz pos) mod 2 = 0 then block1 else block2) replace)
                  (inner (Box_of_size (size_v box)))\<rparr>)"
    using checkered_loop_accepted [OF acc]
    by (simp add: placeCheckeredBox_def vsum_def)
next
  assume acc: "\<forall>k. editor_rejects c k = None"
  show "map call_block
             (new_calls e (placeCheckeredBox c e (box\<lparr>offset := vadd (offset box) v\<rparr>)
                block1 block2 replace)) =
           map call_block (new_calls e (placeCheckeredBox c e box block1 block2 replace))"
    using checkered_loop_accepted [OF acc]
    by (simp add: placeCheckeredBox_def new_calls_def comp_def)
next
  show "set (inner (Box_of_size (size_v box))) =
           {pos. 0 \<le> vx pos \<and> vx pos < vx (size_v box)
               \<and> 0 \<le> vy pos \<and> vy pos < vy (size_v box)
               \<and> 0 \<le> vz pos \<and> vz pos < vz (size_v box)}"
    using in_inner_local_iff by blast
qed

theorem placeCheckeredBox_pattern_witness:
  "placeCheckeredBox plain editor0 \<lparr>offset = ivec3 5 5 5, size_v = ivec3 2 1 2\<rparr>
       stone default_block2 None =
     (Inr (), editor0\<lparr>calls :=
        [PlaceBlock (Point (ivec3 5 5 5)) stone None,
         PlaceBlock (Point (ivec3 5 5 6)) default_block2 None,
         PlaceBlock (Point (ivec3 6 5 5)) default_block2 None,
         PlaceBlock (Point (ivec3 6 5 6)) stone None]\<rparr>)
   \<and> map call_block
        (new_calls editor0
           (placeCheckeredBox plain editor0 \<lparr>offset = ivec3 7 5 9, size_v = ivec3 2 1 2\<rparr>
              stone default_block2 None)) =
     [stone, default_block2, default_block2, stone]"
proof -
  have acc: "\<forall>k. editor_rejects plain k = None"
    by (simp add: plain_def)
  have loc: "inner (Box_of_size (ivec3 2 1 2)) = [ivec3 0 0 0, ivec3 0 0 1, ivec3 1 0 0, ivec3 1 0 1]"
    by (simp add: inner_def Box_of_size_def begin_box_def end_box_def vadd_def upto.simps)
  have e0: "calls editor0 = []"
    by (simp add: editor0_def)
  note inst = placeCheckeredBox_pattern
      [of editor0 plain "\<lparr>offset = ivec3 5 5 5, size_v = ivec3 2 1 2\<rparr>" stone default_block2 None
         "ivec3 2 0 4", THEN conjunct2, THEN conjunct1, THEN mp, OF acc]
  from inst have first:
    "placeCheckeredBox plain editor0 \<lparr>offset = ivec3 5 5 5, size_v = ivec3 2 1 2\<rparr>
       stone default_block2 None =
     (Inr (), editor0\<lparr>calls :=
        [PlaceBlock (Point (ivec3 5 5 5)) stone None,
         PlaceBlock (Point (ivec3 5 5 6)) default_block2 None,
         PlaceBlock (Point (ivec3 6 5 5)) default_block2 None,
         PlaceBlock (Point (ivec3 6 5 6)) stone None]\<rparr>)"
    by (simp add: loc e0 vadd_def)
  from inst have
    "map call_block
        (new_calls editor0
           (placeCheckeredBox plain editor0 \<lparr>offset = ivec3 7 5 9, size_v = ivec3 2 1 2\<rparr>
              stone default_block2 None)) =
     map call_block
        (new_calls editor0
           (placeCheckeredBox plain editor0 \<lparr>offset = ivec3 5 5 5, size_v = ivec3 2 1 2\<rparr>
              stone default_block2 None))"
    by (simp add: vadd_def)
  also have "\<dots> = [stone, default_block2, default_block2, stone]"
    by (simp add: first new_calls_def e0)
  finally show ?thesis using first by simp
qed

text \<open>
  Claim C4. For a stripe axis 0, 1 or 2, \<open>placeStripedBox\<close> walks the box-local
  positions and makes for each one \<open>placeBlock\<close> call at \<open>box.offset + pos\<close>, with
  \<open>block1\<close> when the component of the position along the stripe axis is even and
  \<open>block2\<close> otherwise: the calls made are an initial part of that sequence whatever the
  editor does, and the whole sequence when the editor accepts every call. So the choice
  changes with every unit step along the stripe axis, and does not change with a unit
  step along any other axis.
\<close>

theorem placeStripedBox_pattern:
  assumes "stripeAxis = 0 \<or> stripeAxis = 1 \<or> stripeAxis = 2"
  shows "(\<exists>n. new_calls e (placeStripedBox c e box stripeAxis block1 block2 replace) =
            take n (map (\<lambda>pos. PlaceBlock (Point (vadd (offset box) pos))
                     (if component stripeAxis pos mod 2 = 0 then block1 else block2) replace)
                  (inner (Box_of_size (size_v box)))))
       \<and> ((\<forall>k. editor_rejects c k = None) \<longrightarrow>
            placeStripedBox c e box stripeAxis block1 block2 replace =
             (Inr (), e\<lparr>calls := calls e @
                map (\<lambda>pos. PlaceBlock (Point (vadd (offset box) pos))
                       (if component stripeAxis pos mod 2 = 0 then block1 else block2) replace)
                    (inner (Box_of_size (size_v box)))\<rparr>))
       \<and> (\<forall>pos. (component stripeAxis (vadd pos (unit_step stripeAxis)) mod 2 = 0)
                 \<noteq> (component stripeAxis pos mod 2 = 0))
       \<and> (\<forall>pos a. a \<noteq> stripeAxis \<longrightarrow>
             component stripeAxis (vadd pos (unit_step a)) = component stripeAxis pos)"
proof (intro conjI allI impI)
  from striped_loop_prefix [OF assms, of c e box block1 block2 replace
      "inner (Box_of_size (size_v box))"]
  obtain n where
    "calls (snd (placeStripedBox c e box stripeAxis block1 block2 replace)) =
       calls e @ take n (map (\<lambda>pos. PlaceBlock (Point (vadd (offset box) pos))
                     (if component stripeAxis pos mod 2 = 0 then block1 else block2) replace)
                  (inner (Box_of_size (size_v box))))"
    unfolding placeStripedBox_def by blast
  then have "new_calls e (placeStripedBox c e box stripeAxis block1 block2 replace) =
            take n (map (\<lambda>pos. PlaceBlock (Point (vadd (offset box) pos))
                     (if component stripeAxis pos mod 2 = 0 then block1 else block2) replace)
                  (inner (Box_of_size (size_v box))))"
    by (simp add: new_calls_def)
  then show "\<exists>n. new_calls e (placeStripedBox c e box stripeAxis block1 block2 replace) =
            take n (map (\<lambda>pos. PlaceBlock (Point (vadd (offset box) pos))
                     (if component stripeAxis pos mod 2 = 0 then block1 else block2) replace)
                  (inner (Box_of_size (size_v box))))"
    by blast
next
  assume acc: "\<forall>k. editor_rejects c k = None"
  show "placeStripedBox c e box stripeAxis block1 block2 replace =
           (Inr (), e\<lparr>calls := calls e @
              map (\<lambda>pos. PlaceBlock (Point (vadd (offset box) pos))
                     (if component stripeAxis pos mod 2 = 0 then block1 else block2) replace)
                  (inner (Box_of_size (size_v box)))\<rparr>)"
    using striped_loop_accepted [OF acc assms] by (simp add: placeStripedBox_def)
next
  fix pos
  show "(component stripeAxis (vadd pos (unit_step stripeAxis)) mod 2 = 0)
          \<noteq> (component stripeAxis pos mod 2 = 0)"
    using assms by (auto simp: component_def unit_step_def vadd_def) presburger+
next
  fix pos a
  assume "a \<noteq> stripeAxis"
  with assms show "component stripeAxis (vadd pos (unit_step a)) = component stripeAxis pos"
    by (auto simp: component_def unit_step_def vadd_def)
qed

theorem placeStripedBox_pattern_witness:
  "placeStripedBox plain editor0 \<lparr>offset = ivec3 5 5 5, size_v = ivec3 2 1 2\<rparr> 0
       stone default_block2 None =
     (Inr (), editor0\<lparr>calls :=
        [PlaceBlock (Point (ivec3 5 5 5)) stone None,
         PlaceBlock (Point (ivec3 5 5 6)) stone None,
         PlaceBlock (Point (ivec3 6 5 5)) default_block2 None,
         PlaceBlock (Point (ivec3 6 5 6)) default_block2 None]\<rparr>)"
proof -
  have acc: "\<forall>k. editor_rejects plain k = None"
    by (simp add: plain_def)
  have loc: "inner (Box_of_size (ivec3 2 1 2)) = [ivec3 0 0 0, ivec3 0 0 1, ivec3 1 0 0, ivec3 1 0 1]"
    by (simp add: inner_def Box_of_size_def begin_box_def end_box_def vadd_def upto.simps)
  have e0: "calls editor0 = []"
    by (simp add: editor0_def)
  have ax: "(0::int) = 0 \<or> (0::int) = 1 \<or> (0::int) = 2"
    by simp
  from placeStripedBox_pattern [OF ax,
      of editor0 plain "\<lparr>offset = ivec3 5 5 5, size_v = ivec3 2 1 2\<rparr>" stone default_block2 None,
      THEN conjunct2, THEN conjunct1, THEN mp, OF acc]
  show ?thesis
    by (simp add: loc e0 vadd_def component_def)
qed

section \<open>Which functions transform before placing\<close>

lemma new_calls_append [simp]:
  "new_calls e (r, e\<lparr>calls := calls e @ ks\<rparr>) = ks"
  by (simp add: new_calls_def)

lemma new_calls_same [simp]: "new_calls e (r, e) = []"
  by (simp add: new_calls_def)

text \<open>
  Claim C6. \<open>placeLineSequence\<close> and \<open>placeCylinder\<close> hand their points to the
  generator as they are and pass what it yields to \<open>placeBlock\<close>, the editor's
  transforming operation: the transform operation is never called (replacing it changes
  nothing), and the editor's transform has no influence on the calls made. By contrast
  \<open>placeCuboid\<close>, \<open>placeLine\<close> and \<open>placeFittingCylinder\<close> transform their two key
  points first, generate the points from the transformed ones and call
  \<open>placeBlockGlobal\<close>. What the editor does inside \<open>placeBlock\<close> is the editor's and
  is not part of this layer; the calls record which operation is asked for.
\<close>

theorem untransformed_points_go_to_placeBlock:
  "(lineSequence3D c points closed = Inr pts \<longrightarrow>
      calls (snd (placeLineSequence c e points block closed replace)) =
        calls e @ [PlaceBlock (Points pts) block replace])
   \<and> (cylinder c baseCenter diams length_c axis tube hollow = Inr cpts \<longrightarrow>
      calls (snd (placeCylinder c e baseCenter diams length_c block axis tube hollow replace)) =
        calls e @ [PlaceBlock (Points cpts) block replace])
   \<and> placeLineSequence (c\<lparr>transform_apply := ta\<rparr>) e points block closed replace =
       placeLineSequence c e points block closed replace
   \<and> placeCylinder (c\<lparr>transform_apply := ta\<rparr>) e baseCenter diams length_c block axis tube
         hollow replace =
       placeCylinder c e baseCenter diams length_c block axis tube hollow replace
   \<and> new_calls (e\<lparr>transform := t\<rparr>)
         (placeLineSequence c (e\<lparr>transform := t\<rparr>) points block closed replace) =
       new_calls e (placeLineSequence c e points block closed replace)
   \<and> new_calls (e\<lparr>transform := t\<rparr>)
         (placeCylinder c (e\<lparr>transform := t\<rparr>) baseCenter diams length_c block axis tube
            hollow replace) =
       new_calls e (placeCylinder c e baseCenter diams length_c block axis tube hollow replace)
   \<and> (transform_apply c (transform e) first = Inr first' \<and>
       transform_apply c (transform e) last_pt = Inr last_pt' \<and>
       block_transformed c block (rotation (transform e)) (flip (transform e)) = Inr block' \<longrightarrow>
        calls (snd (placeCuboid c e first last_pt block replace)) =
          calls e @ [PlaceBlockGlobal (Points (inner (between first' last_pt'))) block' replace]
      \<and> (line3D c first' last_pt' width = Inr lpts \<longrightarrow>
          calls (snd (placeLine c e first last_pt block width replace)) =
            calls e @ [PlaceBlockGlobal (Points lpts) block' replace])
      \<and> (fittingCylinder c first' last_pt' axis tube hollow = Inr fpts \<longrightarrow>
          calls (snd (placeFittingCylinder c e first last_pt block axis tube hollow replace)) =
            calls e @ [PlaceBlockGlobal (Points fpts) block' replace]))"
  by (simp add: placeLineSequence_def placeCylinder_def placeCuboid_def placeLine_def
        placeFittingCylinder_def placeBlock_def placeBlockGlobal_def editor_call_def
        new_calls_def split: sum.splits)


theorem untransformed_points_go_to_placeBlock_witness:
  "calls (snd (placeLineSequence plain editor1 [ivec3 0 0 0, ivec3 2 0 0] stone False None)) =
     [PlaceBlock (Points [ivec3 0 0 0, ivec3 1 0 0, ivec3 2 0 0]) stone None]
   \<and> calls (snd (placeCylinder plain editor1 (ivec3 0 0 0) (Diameter 3) 2 stone 1 False False
        None)) =
     [PlaceBlock (Points [ivec3 0 0 0]) stone None]
   \<and> calls (snd (placeCuboid plain editor1 (ivec3 0 0 0) (ivec3 2 0 0) stone None)) =
     [PlaceBlockGlobal (Points [ivec3 10 20 30, ivec3 11 20 30, ivec3 12 20 30]) stone None]
   \<and> calls (snd (placeLine plain editor1 (ivec3 0 0 0) (ivec3 2 0 0) stone 1 None)) =
     [PlaceBlockGlobal (Points [ivec3 10 20 30, ivec3 11 20 30, ivec3 12 20 30]) stone None]
   \<and> calls (snd (placeFittingCylinder plain editor1 (ivec3 0 0 0) (ivec3 2 0 0) stone 1 False
        False None)) =
     [PlaceBlockGlobal (Points [ivec3 10 20 30, ivec3 12 20 30]) stone None]"
proof -
  have h1: "lineSequence3D plain [ivec3 0 0 0, ivec3 2 0 0] False =
              Inr [ivec3 0 0 0, ivec3 1 0 0, ivec3 2 0 0]"
    by (simp add: plain_def lineSequence3D_spec_def midpoint_def)
  have h2: "cylinder plain (ivec3 0 0 0) (Diameter 3) 2 1 False False = Inr [ivec3 0 0 0]"
    by (simp add: plain_def)
  have h3: "transform_apply plain (transform editor1) (ivec3 0 0 0) = Inr (ivec3 10 20 30)"
    "transform_apply plain (transform editor1) (ivec3 2 0 0) = Inr (ivec3 12 20 30)"
    "block_transformed plain stone (rotation (transform editor1)) (flip (transform editor1))
       = Inr stone"
    by (simp_all add: plain_def editor1_def vadd_def)
  have h4: "line3D plain (ivec3 10 20 30) (ivec3 12 20 30) 1 =
              Inr [ivec3 10 20 30, ivec3 11 20 30, ivec3 12 20 30]"
    by (simp add: plain_def midpoint_def)
  have h5: "fittingCylinder plain (ivec3 10 20 30) (ivec3 12 20 30) 1 False False =
              Inr [ivec3 10 20 30, ivec3 12 20 30]"
    by (simp add: plain_def)
  have h6: "inner (between (ivec3 10 20 30) (ivec3 12 20 30)) =
              [ivec3 10 20 30, ivec3 11 20 30, ivec3 12 20 30]"
    by (simp add: inner_def between_def begin_box_def end_box_def vadd_def upto.simps)
  have e1: "calls editor1 = []"
    by (simp add: editor1_def)
  from untransformed_points_go_to_placeBlock
    [where c = plain and e = editor1 and points = "[ivec3 0 0 0, ivec3 2 0 0]"
       and closed = False and pts = "[ivec3 0 0 0, ivec3 1 0 0, ivec3 2 0 0]"
       and baseCenter = "ivec3 0 0 0" and diams = "Diameter 3" and length_c = 2
       and axis = 1 and tube = False and hollow = False and cpts = "[ivec3 0 0 0]"
       and first = "ivec3 0 0 0" and first' = "ivec3 10 20 30"
       and last_pt = "ivec3 2 0 0" and last_pt' = "ivec3 12 20 30"
       and block = stone and block' = stone and replace = None and width = 1
       and lpts = "[ivec3 10 20 30, ivec3 11 20 30, ivec3 12 20 30]"
       and fpts = "[ivec3 10 20 30, ivec3 12 20 30]"]
  show ?thesis
    by (simp add: h1 h2 h3 h4 h5 h6 e1)
qed

text \<open>
  Claim C10. \<open>placeLineSequence\<close> and \<open>placeCylinder\<close> pass the block argument to the
  editor as it is: whenever the generator yields its points, they make exactly one
  \<open>placeBlock\<close> call, and that call carries the block argument itself; they never call
  \<open>block.transformed\<close> (replacing that operation changes nothing), and no call they make
  carries another block. \<open>placeCuboid\<close>, \<open>placeCuboidHollow\<close>, \<open>placeCuboidWireframe\<close>,
  \<open>placeLine\<close> and \<open>placeFittingCylinder\<close> call
  \<open>block.transformed(editor.transform.rotation, editor.transform.flip)\<close> before placing:
  if it raises, they stop with that error and no call made; otherwise the call they make
  carries the transformed block.
\<close>

theorem block_transformed_only_by_pretransforming_functions:
  "(\<forall>pts. lineSequence3D c points closed = Inr pts \<longrightarrow>
       calls (snd (placeLineSequence c e points block closed replace)) =
         calls e @ [PlaceBlock (Points pts) block replace])
   \<and> (\<forall>cpts. cylinder c baseCenter diams length_c axis tube hollow = Inr cpts \<longrightarrow>
       calls (snd (placeCylinder c e baseCenter diams length_c block axis tube hollow replace)) =
         calls e @ [PlaceBlock (Points cpts) block replace])
   \<and> placeLineSequence (c\<lparr>block_transformed := bt\<rparr>) e points block closed replace =
       placeLineSequence c e points block closed replace
   \<and> placeCylinder (c\<lparr>block_transformed := bt\<rparr>) e baseCenter diams length_c block axis tube
         hollow replace =
       placeCylinder c e baseCenter diams length_c block axis tube hollow replace
   \<and> (\<forall>k \<in> set (new_calls e (placeLineSequence c e points block closed replace)).
         k = PlaceBlock (call_target k) block replace)
   \<and> (\<forall>k \<in> set (new_calls e
          (placeCylinder c e baseCenter diams length_c block axis tube hollow replace)).
         k = PlaceBlock (call_target k) block replace)
   \<and> (transform_apply c (transform e) first = Inr first' \<and>
       transform_apply c (transform e) last_pt = Inr last_pt' \<longrightarrow>
        (case block_transformed c block (rotation (transform e)) (flip (transform e)) of
           Inl err \<Rightarrow>
             placeCuboid c e first last_pt block replace = (Inl err, e)
           \<and> placeCuboidHollow c e first last_pt block replace = (Inl err, e)
           \<and> placeCuboidWireframe c e first last_pt block replace = (Inl err, e)
           \<and> placeLine c e first last_pt block width replace = (Inl err, e)
           \<and> placeFittingCylinder c e first last_pt block axis tube hollow replace = (Inl err, e)
         | Inr block' \<Rightarrow>
             (\<exists>t. new_calls e (placeCuboid c e first last_pt block replace) =
                    [PlaceBlockGlobal t block' replace])
           \<and> (\<exists>t. new_calls e (placeCuboidHollow c e first last_pt block replace) =
                    [PlaceBlockGlobal t block' replace])
           \<and> (\<exists>t. new_calls e (placeCuboidWireframe c e first last_pt block replace) =
                    [PlaceBlockGlobal t block' replace])
           \<and> (\<forall>lpts. line3D c first' last_pt' width = Inr lpts \<longrightarrow>
                 new_calls e (placeLine c e first last_pt block width replace) =
                    [PlaceBlockGlobal (Points lpts) block' replace])
           \<and> (\<forall>fpts. fittingCylinder c first' last_pt' axis tube hollow = Inr fpts \<longrightarrow>
                 new_calls e (placeFittingCylinder c e first last_pt block axis tube hollow
                    replace) =
                    [PlaceBlockGlobal (Points fpts) block' replace])))"
  by (simp add: placeLineSequence_def placeCylinder_def placeCuboid_def placeCuboidHollow_def
        placeCuboidWireframe_def placeLine_def
        placeFittingCylinder_def placeBlock_def placeBlockGlobal_def editor_call_def
        new_calls_def split: sum.splits)

theorem block_transformed_only_by_pretransforming_functions_witness:
  "calls (snd (placeLineSequence turning editor1 [ivec3 0 0 0, ivec3 2 0 0] stone False None)) =
     [PlaceBlock (Points [ivec3 0 0 0, ivec3 1 0 0, ivec3 2 0 0]) stone None]
   \<and> calls (snd (placeCylinder turning editor1 (ivec3 0 0 0) (Diameter 3) 2 stone 1 False False
        None)) =
     [PlaceBlock (Points [ivec3 0 0 0]) stone None]
   \<and> new_calls editor1 (placeLine turning editor1 (ivec3 0 0 0) (ivec3 2 0 0) stone 1 None) =
     [PlaceBlockGlobal (Points [ivec3 10 20 30, ivec3 11 20 30, ivec3 12 20 30])
        (Block ''minecraft:stone'' [(''facing'', ''east'')]) None]
   \<and> placeCuboid (plain\<lparr>block_transformed := (\<lambda>b rot fl. Inl ''block'')\<rparr>) editor1
        (ivec3 0 0 0) (ivec3 2 0 0) stone None = (Inl ''block'', editor1)"
proof -
  have h1: "lineSequence3D turning [ivec3 0 0 0, ivec3 2 0 0] False =
              Inr [ivec3 0 0 0, ivec3 1 0 0, ivec3 2 0 0]"
    by (simp add: turning_def plain_def lineSequence3D_spec_def midpoint_def)
  have h2: "cylinder turning (ivec3 0 0 0) (Diameter 3) 2 1 False False = Inr [ivec3 0 0 0]"
    by (simp add: turning_def plain_def)
  have h3: "transform_apply turning (transform editor1) (ivec3 0 0 0) = Inr (ivec3 10 20 30)"
    "transform_apply turning (transform editor1) (ivec3 2 0 0) = Inr (ivec3 12 20 30)"
    "block_transformed turning stone (rotation (transform editor1)) (flip (transform editor1))
       = Inr (Block ''minecraft:stone'' [(''facing'', ''east'')])"
    by (simp_all add: turning_def plain_def editor1_def vadd_def stone_def)
  have h4: "line3D turning (ivec3 10 20 30) (ivec3 12 20 30) 1 =
              Inr [ivec3 10 20 30, ivec3 11 20 30, ivec3 12 20 30]"
    by (simp add: turning_def plain_def midpoint_def)
  have e1: "calls editor1 = []"
    by (simp add: editor1_def)
  have g3: "transform_apply (plain\<lparr>block_transformed := (\<lambda>b rot fl. Inl ''block'')\<rparr>)
              (transform editor1) (ivec3 0 0 0) = Inr (ivec3 10 20 30)"
    "transform_apply (plain\<lparr>block_transformed := (\<lambda>b rot fl. Inl ''block'')\<rparr>)
              (transform editor1) (ivec3 2 0 0) = Inr (ivec3 12 20 30)"
    "transform_apply plain (transform editor1) (ivec3 0 0 0) = Inr (ivec3 10 20 30)"
    "transform_apply plain (transform editor1) (ivec3 2 0 0) = Inr (ivec3 12 20 30)"
    by (simp_all add: plain_def editor1_def vadd_def)
  from block_transformed_only_by_pretransforming_functions
    [where c = turning and e = editor1 and points = "[ivec3 0 0 0, ivec3 2 0 0]"
       and closed = False and block = stone and replace = None
       and first = "ivec3 0 0 0" and first' = "ivec3 10 20 30"
       and last_pt = "ivec3 2 0 0" and last_pt' = "ivec3 12 20 30" and width = 1
       and bt = "block_transformed plain" and baseCenter = "ivec3 0 0 0"
       and diams = "Diameter 3" and length_c = 2 and axis = 1 and tube = False
       and hollow = False]
  have a: "calls (snd (placeLineSequence turning editor1 [ivec3 0 0 0, ivec3 2 0 0] stone False
             None)) =
       [PlaceBlock (Points [ivec3 0 0 0, ivec3 1 0 0, ivec3 2 0 0]) stone None]
     \<and> calls (snd (placeCylinder turning editor1 (ivec3 0 0 0) (Diameter 3) 2 stone 1 False
          False None)) =
       [PlaceBlock (Points [ivec3 0 0 0]) stone None]
     \<and> new_calls editor1 (placeLine turning editor1 (ivec3 0 0 0) (ivec3 2 0 0) stone 1 None) =
       [PlaceBlockGlobal (Points [ivec3 10 20 30, ivec3 11 20 30, ivec3 12 20 30])
          (Block ''minecraft:stone'' [(''facing'', ''east'')]) None]"
    by (simp add: h1 h2 h3 h4 e1)
  from block_transformed_only_by_pretransforming_functions
    [where c = "plain\<lparr>block_transformed := (\<lambda>b rot fl. Inl ''block'')\<rparr>" and e = editor1
       and block = stone and replace = None
       and first = "ivec3 0 0 0" and first' = "ivec3 10 20 30"
       and last_pt = "ivec3 2 0 0" and last_pt' = "ivec3 12 20 30" and width = 1
       and points = "[ivec3 0 0 0, ivec3 2 0 0]" and closed = False
       and bt = "block_transformed plain" and baseCenter = "ivec3 0 0 0"
       and diams = "Diameter 3" and length_c = 2 and axis = 1 and tube = False
       and hollow = False]
  have b: "placeCuboid (plain\<lparr>block_transformed := (\<lambda>b rot fl. Inl ''block'')\<rparr>) editor1
        (ivec3 0 0 0) (ivec3 2 0 0) stone None = (Inl ''block'', editor1)"
    by (simp add: g3)
  from a b show ?thesis by simp
qed

section \<open>Line sequences\<close>

text \<open>
  Claim C8. With the line sequence of the spec as the generator, \<open>placeLineSequence\<close> on
  three points \<open>p0, p1, p2\<close> makes one \<open>placeBlock\<close> call whose points are, with
  \<open>closed\<close>, exactly those of the segments from \<open>p0\<close> to \<open>p1\<close>, from \<open>p1\<close> to \<open>p2\<close>
  and from \<open>p2\<close> back to \<open>p0\<close>, and without \<open>closed\<close> exactly those of the first two
  segments.
\<close>

theorem placeLineSequence_three_points:
  "(line3D c p0 p1 1 = Inr s01 \<and> line3D c p1 p2 1 = Inr s12 \<and> line3D c p2 p0 1 = Inr s20 \<longrightarrow>
      (\<exists>pts. calls (snd (placeLineSequence (c\<lparr>lineSequence3D := lineSequence3D_spec (line3D c)\<rparr>)
                           e [p0, p1, p2] block True replace)) =
                calls e @ [PlaceBlock (Points pts) block replace]
           \<and> set pts = set s01 \<union> set s12 \<union> set s20))
   \<and> (line3D c p0 p1 1 = Inr s01 \<and> line3D c p1 p2 1 = Inr s12 \<longrightarrow>
      (\<exists>pts. calls (snd (placeLineSequence (c\<lparr>lineSequence3D := lineSequence3D_spec (line3D c)\<rparr>)
                           e [p0, p1, p2] block False replace)) =
                calls e @ [PlaceBlock (Points pts) block replace]
           \<and> set pts = set s01 \<union> set s12))"
  by (simp add: placeLineSequence_def lineSequence3D_spec_def placeBlock_def editor_call_def
        Un_assoc)

theorem placeLineSequence_three_points_witness:
  "(\<exists>pts. calls (snd (placeLineSequence plain editor0
                        [ivec3 0 0 0, ivec3 4 0 0, ivec3 4 4 0] stone True None)) =
            [PlaceBlock (Points pts) stone None]
        \<and> set pts = {ivec3 0 0 0, ivec3 2 0 0, ivec3 4 0 0, ivec3 4 2 0, ivec3 4 4 0,
                      ivec3 2 2 0})
   \<and> (\<exists>pts. calls (snd (placeLineSequence plain editor0
                        [ivec3 0 0 0, ivec3 4 0 0, ivec3 4 4 0] stone False None)) =
            [PlaceBlock (Points pts) stone None]
        \<and> set pts = {ivec3 0 0 0, ivec3 2 0 0, ivec3 4 0 0, ivec3 4 2 0, ivec3 4 4 0})"
proof -
  have p: "plain\<lparr>lineSequence3D := lineSequence3D_spec (line3D plain)\<rparr> = plain"
    by (simp add: plain_def)
  have l: "line3D plain (ivec3 0 0 0) (ivec3 4 0 0) 1 = Inr [ivec3 0 0 0, ivec3 2 0 0, ivec3 4 0 0]"
    "line3D plain (ivec3 4 0 0) (ivec3 4 4 0) 1 = Inr [ivec3 4 0 0, ivec3 4 2 0, ivec3 4 4 0]"
    "line3D plain (ivec3 4 4 0) (ivec3 0 0 0) 1 = Inr [ivec3 4 4 0, ivec3 2 2 0, ivec3 0 0 0]"
    by (simp_all add: plain_def midpoint_def)
  have e0: "calls editor0 = []"
    by (simp add: editor0_def)
  have s1: "set [ivec3 0 0 0, ivec3 2 0 0, ivec3 4 0 0] \<union> set [ivec3 4 0 0, ivec3 4 2 0, ivec3 4 4 0]
            \<union> set [ivec3 4 4 0, ivec3 2 2 0, ivec3 0 0 0] =
        {ivec3 0 0 0, ivec3 2 0 0, ivec3 4 0 0, ivec3 4 2 0, ivec3 4 4 0, ivec3 2 2 0}"
    by auto
  have s2: "set [ivec3 0 0 0, ivec3 2 0 0, ivec3 4 0 0] \<union> set [ivec3 4 0 0, ivec3 4 2 0, ivec3 4 4 0] =
        {ivec3 0 0 0, ivec3 2 0 0, ivec3 4 0 0, ivec3 4 2 0, ivec3 4 4 0}"
    by auto
  note inst = placeLineSequence_three_points
    [where c = plain and e = editor0 and ?p0.0 = "ivec3 0 0 0" and ?p1.0 = "ivec3 4 0 0"
       and ?p2.0 = "ivec3 4 4 0" and block = stone and replace = None
       and ?s01.0 = "[ivec3 0 0 0, ivec3 2 0 0, ivec3 4 0 0]"
       and ?s12.0 = "[ivec3 4 0 0, ivec3 4 2 0, ivec3 4 4 0]"
       and ?s20.0 = "[ivec3 4 4 0, ivec3 2 2 0, ivec3 0 0 0]", unfolded p e0]
  from inst l obtain pts where
    "calls (snd (placeLineSequence plain editor0
                        [ivec3 0 0 0, ivec3 4 0 0, ivec3 4 4 0] stone True None)) =
            [] @ [PlaceBlock (Points pts) stone None]"
    and "set pts = set [ivec3 0 0 0, ivec3 2 0 0, ivec3 4 0 0]
            \<union> set [ivec3 4 0 0, ivec3 4 2 0, ivec3 4 4 0]
            \<union> set [ivec3 4 4 0, ivec3 2 2 0, ivec3 0 0 0]"
    by blast
  then have closed_case: "\<exists>pts. calls (snd (placeLineSequence plain editor0
                        [ivec3 0 0 0, ivec3 4 0 0, ivec3 4 4 0] stone True None)) =
            [PlaceBlock (Points pts) stone None]
        \<and> set pts = {ivec3 0 0 0, ivec3 2 0 0, ivec3 4 0 0, ivec3 4 2 0, ivec3 4 4 0,
                      ivec3 2 2 0}"
    unfolding s1 by simp
  from inst l obtain qts where
    "calls (snd (placeLineSequence plain editor0
                        [ivec3 0 0 0, ivec3 4 0 0, ivec3 4 4 0] stone False None)) =
            [] @ [PlaceBlock (Points qts) stone None]"
    and "set qts = set [ivec3 0 0 0, ivec3 2 0 0, ivec3 4 0 0]
            \<union> set [ivec3 4 0 0, ivec3 4 2 0, ivec3 4 4 0]"
    by blast
  then have open_case: "\<exists>pts. calls (snd (placeLineSequence plain editor0
                        [ivec3 0 0 0, ivec3 4 0 0, ivec3 4 4 0] stone False None)) =
            [PlaceBlock (Points pts) stone None]
        \<and> set pts = {ivec3 0 0 0, ivec3 2 0 0, ivec3 4 0 0, ivec3 4 2 0, ivec3 4 4 0}"
    unfolding s2 by simp
  from closed_case open_case show ?thesis by (rule conjI)
qed

section \<open>Errors\<close>








































text \<open>
  The bounding box of what \<open>placeFittingCylinder\<close> places (claim C7) is a property of
  the generator \<open>fittingCylinder\<close> alone. Its rule for choosing points is part of
  neither this layer nor the spec, so nothing about that box is derived here; that the
  two corners and the block are transformed before the generator runs is part of the
  two theorems on transforming above.
\<close>

end
